theory Spec2Isabelle
  imports Complex_Main "HOL-Library.Product_Lexorder"
begin

section \<open>The vector index: \<^verbatim>\<open>backend/supabase_setup.sql\<close>\<close>

text \<open>
  The script creates the table \<^verbatim>\<open>mcs_documents\<close>, an \<^verbatim>\<open>ivfflat\<close> index on its
  embeddings and the function \<^verbatim>\<open>match_documents\<close>. A pgvector value is modelled by
  the list of its components, a nullable column by \<open>option\<close> (\<open>None\<close> is NULL), and
  an error raised by PostgreSQL by a value of \<open>sql_error\<close>.
\<close>

type_synonym vector = "real list"

datatype sql_error =
    ExpectedDimensions nat nat
  | DifferentVectorDimensions nat nat
  | NegativeLimit
  | NotNullViolation

subsection \<open>Double precision\<close>

text \<open>
  A value of SQL \<^verbatim>\<open>float\<close> is a number, an infinity or NaN. PostgreSQL orders them
  totally: the numbers between the infinities, and NaN above everything and equal to
  itself; \<open>float8_rank\<close> is the position of a value in that order, compared first by
  the left component. \<open>float8_gt\<close> is the operator \<^verbatim>\<open>>\<close>, so that
  \<^verbatim>\<open>'NaN' > 0.5\<close> is true. \<open>one_minus\<close> is \<^verbatim>\<open>1 - x\<close>. Numbers are reals:
  the rounding of \<^verbatim>\<open>1 - x\<close> is left out, which changes neither a comparison with the
  rounded value nor the order of two results.
\<close>

datatype float8 = NegInf | Number real | PosInf | NaN

fun float8_rank :: "float8 \<Rightarrow> nat \<times> real" where
  "float8_rank NegInf = (0, 0)"
| "float8_rank (Number x) = (1, x)"
| "float8_rank PosInf = (2, 0)"
| "float8_rank NaN = (3, 0)"

definition float8_gt :: "float8 \<Rightarrow> float8 \<Rightarrow> bool" where
  "float8_gt a b = (float8_rank b < float8_rank a)"


fun one_minus :: "float8 \<Rightarrow> float8" where
  "one_minus NegInf = PosInf"
| "one_minus (Number x) = Number (1 - x)"
| "one_minus PosInf = NegInf"
| "one_minus NaN = NaN"

subsection \<open>The table\<close>

text \<open>
  One row of \<^verbatim>\<open>mcs_documents\<close> (lines 11-17). \<^verbatim>\<open>content\<close> is
  \<^verbatim>\<open>TEXT NOT NULL\<close>; \<^verbatim>\<open>metadata\<close> and \<^verbatim>\<open>embedding\<close> are nullable. The type
  of the JSON metadata is left open.
\<close>

record 'm document =
  doc_id :: int
  content :: string
  metadata :: "'m option"
  embedding :: "vector option"
  created_at :: int

text \<open>One row of the table returned by \<^verbatim>\<open>match_documents\<close> (lines 32-37).\<close>

record 'm match_row =
  match_id :: int
  match_content :: string
  match_metadata :: "'m option"
  similarity :: float8

text \<open>The dimension written in \<^verbatim>\<open>vector(384)\<close>.\<close>

definition embedding_dim :: nat where
  "embedding_dim = 384"

text \<open>
  Storing a row. The column type \<^verbatim>\<open>vector(384)\<close> makes pgvector reject a value of
  another dimension (\<^verbatim>\<open>expected 384 dimensions, not n\<close>) when the value is converted,
  before PostgreSQL tests \<^verbatim>\<open>NOT NULL\<close> on the content; a NULL embedding is stored as
  it is. \<^verbatim>\<open>BIGSERIAL\<close> and \<^verbatim>\<open>DEFAULT NOW()\<close> are supplied by the caller of the
  model as \<open>new_id\<close> and \<open>now\<close>.
\<close>

definition store_row ::
  "int \<Rightarrow> int \<Rightarrow> string option \<Rightarrow> 'm option \<Rightarrow> vector option \<Rightarrow> 'm document list
     \<Rightarrow> sql_error + 'm document list" where
  "store_row new_id now c m e tbl =
     (case c of
        None \<Rightarrow> Inl NotNullViolation
      | Some txt \<Rightarrow>
          Inr (tbl @ [\<lparr>doc_id = new_id, content = txt, metadata = m,
                       embedding = e, created_at = now\<rparr>]))"

definition insert_document ::
  "int \<Rightarrow> int \<Rightarrow> string option \<Rightarrow> 'm option \<Rightarrow> vector option \<Rightarrow> 'm document list
     \<Rightarrow> sql_error + 'm document list" where
  "insert_document new_id now c m e tbl =
     (case e of
        None \<Rightarrow> store_row new_id now c m e tbl
      | Some v \<Rightarrow>
          if length v \<noteq> embedding_dim
          then Inl (ExpectedDimensions embedding_dim (length v))
          else store_row new_id now c m e tbl)"

text \<open>Every stored embedding has the dimension of the column.\<close>

definition table_ok :: "'m document list \<Rightarrow> bool" where
  "table_ok tbl = list_all (\<lambda>r. case embedding r of None \<Rightarrow> True
                                   | Some v \<Rightarrow> length v = embedding_dim) tbl"

subsection \<open>The distance operator\<close>

text \<open>
  The operator \<^verbatim>\<open><=>\<close> belongs to pgvector, not to this repository, so the search
  takes it as the parameter \<open>dop\<close>: applied to a stored embedding and the query it
  raises an error (pgvector does so when the two dimensions differ) or returns a value
  of double precision, which may be NaN.

  The index \<^verbatim>\<open>vector_cosine_ops\<close> (line 22) fixes \<^verbatim>\<open><=>\<close> as the cosine distance:
  one minus the inner product divided by the square root of the product of the two
  squared norms. \<open>exact_cosine_distance\<close> is that distance in exact arithmetic, with
  NaN where a norm is zero and the division is \<open>0 / 0\<close>. pgvector adds the products up
  in single precision, so its operator is NaN on more inputs (where a sum overflows or
  underflows) and rounds elsewhere; the two agree on vectors of zeros and ones. The
  exact distance serves as the operator where a concrete one is needed; the properties
  below are proved for every operator.
\<close>

fun inner_product :: "vector \<Rightarrow> vector \<Rightarrow> real" where
  "inner_product (x # xs) (y # ys) = x * y + inner_product xs ys"
| "inner_product _ _ = 0"

definition exact_cosine_distance :: "vector \<Rightarrow> vector \<Rightarrow> sql_error + float8" where
  "exact_cosine_distance a b =
     (if length a \<noteq> length b then Inl (DifferentVectorDimensions (length a) (length b))
      else if inner_product a a * inner_product b b = 0 then Inr NaN
      else Inr (Number
             (1 - inner_product a b / sqrt (inner_product a a * inner_product b b))))"



subsection \<open>The search function\<close>

text \<open>
  PostgreSQL answers the query of \<^verbatim>\<open>match_documents\<close> by one of two plans, and the
  source does not say which: that is the planner's choice, so the plan is a parameter.
  \<^item> \<open>SeqScan\<close> reads every row of the table and sorts what the condition keeps.
  \<^item> \<open>IndexScan probed\<close> goes through the \<^verbatim>\<open>ivfflat\<close> index of lines 20-23. The
    index compares the query with its centres first, so a query whose dimension is not
    that of the index fails (\<^verbatim>\<open>different vector dimensions 384 and n\<close>) even when the
    table has no rows. It then visits only the rows of the lists it probes, the rows
    that satisfy \<open>probed\<close>: the result may miss rows that a sequential scan returns.

  The body of the function (lines 41-50), clause by clause:
  \<^item> \<^verbatim>\<open>FROM mcs_documents WHERE 1 - (embedding <=> query_embedding) > match_threshold\<close>
    is \<open>scan\<close>: the operator is strict, so a row whose embedding is NULL gives NULL
    for the condition and is dropped; an error of the operator aborts the query; a row
    is kept when the condition is true, as it is for a NaN distance and a threshold
    that is not NaN.
  \<^item> \<^verbatim>\<open>ORDER BY embedding <=> query_embedding\<close> is \<open>sort_key\<close> on the position of
    the distance in the order of double precision, ascending, NaN last.
  \<^item> \<^verbatim>\<open>LIMIT match_count\<close> is \<open>take\<close>. PostgreSQL rejects a negative count
    (\<^verbatim>\<open>LIMIT must not be negative\<close>) when the query starts, and with the count zero it
    returns no row without reading any.
  \<^item> the select list builds the returned rows, with \<^verbatim>\<open>1 - distance\<close> as
    \<^verbatim>\<open>similarity\<close>.
  The arguments of the function are values, not NULL.
\<close>

datatype 'm plan = SeqScan | IndexScan "'m document \<Rightarrow> bool"

fun scan ::
  "(vector \<Rightarrow> vector \<Rightarrow> sql_error + float8) \<Rightarrow> vector \<Rightarrow> float8 \<Rightarrow> 'm document list
     \<Rightarrow> sql_error + ('m document \<times> float8) list" where
  "scan dop q t [] = Inr []"
| "scan dop q t (r # rs) =
     (case embedding r of
        None \<Rightarrow> scan dop q t rs
      | Some e \<Rightarrow>
          (case dop e q of
             Inl err \<Rightarrow> Inl err
           | Inr d \<Rightarrow>
               (case scan dop q t rs of
                  Inl err \<Rightarrow> Inl err
                | Inr kept \<Rightarrow>
                    Inr (if float8_gt (one_minus d) t then (r, d) # kept else kept))))"

definition select_row :: "'m document \<times> float8 \<Rightarrow> 'm match_row" where
  "select_row p =
     \<lparr>match_id = doc_id (fst p), match_content = content (fst p),
      match_metadata = metadata (fst p), similarity = one_minus (snd p)\<rparr>"

definition order_limit ::
  "int \<Rightarrow> sql_error + ('m document \<times> float8) list \<Rightarrow> sql_error + 'm match_row list" where
  "order_limit k scanned =
     (case scanned of
        Inl err \<Rightarrow> Inl err
      | Inr kept \<Rightarrow>
          Inr (take (nat k) (map select_row (sort_key (\<lambda>p. float8_rank (snd p)) kept))))"

definition match_query ::
  "'m plan \<Rightarrow> (vector \<Rightarrow> vector \<Rightarrow> sql_error + float8) \<Rightarrow> 'm document list \<Rightarrow> vector
     \<Rightarrow> float8 \<Rightarrow> int \<Rightarrow> sql_error + 'm match_row list" where
  "match_query plan dop tbl q t k =
     (if k < 0 then Inl NegativeLimit
      else if k = 0 then Inr []
      else case plan of
             SeqScan \<Rightarrow> order_limit k (scan dop q t tbl)
           | IndexScan probed \<Rightarrow>
               if length q \<noteq> embedding_dim
               then Inl (DifferentVectorDimensions embedding_dim (length q))
               else order_limit k (scan dop q t (filter probed tbl)))"

text \<open>
  The signature (lines 27-31): \<^verbatim>\<open>match_threshold float DEFAULT 0.5\<close> and
  \<^verbatim>\<open>match_count int DEFAULT 3\<close>. An argument that the caller leaves out is \<open>None\<close>.
  PostgreSQL discards the modifier of a parameter type (the manual of
  \<^verbatim>\<open>CREATE FUNCTION\<close>: "parenthesized type modifiers ... are discarded"), so the
  \<^verbatim>\<open>(384)\<close> of \<^verbatim>\<open>query_embedding vector(384)\<close> checks nothing and the function
  itself accepts a vector of any dimension; the operator and the index compare
  dimensions.
\<close>

definition match_documents ::
  "'m plan \<Rightarrow> (vector \<Rightarrow> vector \<Rightarrow> sql_error + float8) \<Rightarrow> 'm document list \<Rightarrow> vector
     \<Rightarrow> float8 option \<Rightarrow> int option \<Rightarrow> sql_error + 'm match_row list" where
  "match_documents plan dop tbl query_embedding match_threshold match_count =
     match_query plan dop tbl query_embedding
       (case match_threshold of None \<Rightarrow> Number (1 / 2) | Some t \<Rightarrow> t)
       (case match_count of None \<Rightarrow> 3 | Some k \<Rightarrow> k)"

subsection \<open>The retriever\<close>

text \<open>
  Modelled from the spec: \<^verbatim>\<open>retrieve\<close> of \<^verbatim>\<open>backend/main.py\<close>, which is not among
  the source files. The spec, section 4.5:
  \<^verbatim>\<open>retrieve(question: string, threshold=0.5, top_k=3)\<close> embeds the question and calls
  the search of the vector index; a failure of either propagates unmodified. The
  embedder and the search are parameters.
\<close>

definition retrieve ::
  "(string \<Rightarrow> 'e + vector) \<Rightarrow> (vector \<Rightarrow> float8 \<Rightarrow> int \<Rightarrow> 'e + 'r) \<Rightarrow> string
     \<Rightarrow> float8 option \<Rightarrow> int option \<Rightarrow> 'e + 'r" where
  "retrieve embedder search question threshold top_k =
     (case embedder question of
        Inl err \<Rightarrow> Inl err
      | Inr query_vector \<Rightarrow>
          search query_vector
            (case threshold of None \<Rightarrow> Number (1 / 2) | Some t \<Rightarrow> t)
            (case top_k of None \<Rightarrow> 3 | Some k \<Rightarrow> k))"

section \<open>The API helper: \<^verbatim>\<open>frontend/src/api.js\<close>\<close>

text \<open>
  The JavaScript values that \<^verbatim>\<open>sendMessage\<close> inspects: \<^verbatim>\<open>undefined\<close>,
  \<^verbatim>\<open>null\<close>, a string, or any other value, of which only its truthiness and its
  rendering by \<^verbatim>\<open>String\<close> matter. Strings are character lists; Isabelle's
  characters are the code points below 256.
\<close>

datatype js_value = Undefined | Null | Str string | Other bool string

fun truthy :: "js_value \<Rightarrow> bool" where
  "truthy Undefined = False"
| "truthy Null = False"
| "truthy (Str s) = (s \<noteq> [])"
| "truthy (Other b s) = b"

fun to_string :: "js_value \<Rightarrow> string" where
  "to_string Undefined = ''undefined''"
| "to_string Null = ''null''"
| "to_string (Str s) = s"
| "to_string (Other b s) = s"

text \<open>The operator \<^verbatim>\<open>a || b\<close>.\<close>

definition js_or :: "js_value \<Rightarrow> js_value \<Rightarrow> js_value" where
  "js_or a b = (if truthy a then a else b)"

text \<open>
  The error that \<^verbatim>\<open>axios.post\<close> rejects with: \<^verbatim>\<open>error.response\<close> is present when
  the server answered with a failing status, \<^verbatim>\<open>response.data\<close> is its body (\<open>None\<close>
  when the body is missing or has no properties), \<^verbatim>\<open>error.message\<close> is the text axios
  or the transport gives.
\<close>

record response_data =
  detail :: js_value
  message :: js_value

record http_response =
  status :: nat
  data :: "response_data option"

record axios_error =
  response :: "http_response option"
  err_message :: js_value

text \<open>\<^verbatim>\<open>error.response?.data?.detail\<close> and \<^verbatim>\<open>error.response?.data?.message\<close>.\<close>

definition data_field :: "(response_data \<Rightarrow> js_value) \<Rightarrow> axios_error \<Rightarrow> js_value" where
  "data_field f e =
     (case response e of
        None \<Rightarrow> Undefined
      | Some r \<Rightarrow> (case data r of None \<Rightarrow> Undefined | Some d \<Rightarrow> f d))"

text \<open>
  A thrown value: the name of its constructor and its message. \<^verbatim>\<open>new Error(m)\<close> has
  the name \<^verbatim>\<open>Error\<close> and the message \<^verbatim>\<open>String(m)\<close>, empty when \<^verbatim>\<open>m\<close> is
  \<^verbatim>\<open>undefined\<close>.
\<close>

datatype exn = Exn string string

fun exn_name :: "exn \<Rightarrow> string" where
  "exn_name (Exn n m) = n"

fun exn_message :: "exn \<Rightarrow> string" where
  "exn_message (Exn n m) = m"

definition new_Error :: "js_value \<Rightarrow> exn" where
  "new_Error m = Exn ''Error'' (case m of Undefined \<Rightarrow> [] | _ \<Rightarrow> to_string m)"

datatype 'd axios_result = Fulfilled 'd | Failed axios_error

datatype 'd promise = Resolved 'd | Rejected exn

text \<open>
  \<^verbatim>\<open>sendMessage\<close> (lines 16-33). The parameter \<open>post\<close> is the network: what
  \<^verbatim>\<open>axios.post\<close> on \<^verbatim>\<open>/api/chat\<close> does with the question. \<^verbatim>\<open>console.error\<close>
  only logs and is left out.
\<close>

definition error_text :: "axios_error \<Rightarrow> js_value" where
  "error_text e =
     js_or (js_or (js_or (data_field detail e) (data_field message e)) (err_message e))
       (Str ''Failed to get response from server'')"

definition sendMessage :: "(string \<Rightarrow> 'd axios_result) \<Rightarrow> string \<Rightarrow> 'd promise" where
  "sendMessage post question =
     (case post question of
        Fulfilled d \<Rightarrow> Resolved d
      | Failed e \<Rightarrow> Rejected (new_Error (error_text e)))"

section \<open>The chat interface: \<^verbatim>\<open>frontend/src/components/ChatInterface.jsx\<close>\<close>

text \<open>
  \<^verbatim>\<open>String.prototype.trim\<close> removes white space at both ends. Of the white space of
  ECMAScript these code points are below 256: tab, line feed, vertical tab, form feed,
  carriage return, space and no-break space.
\<close>

definition js_whitespace :: "char \<Rightarrow> bool" where
  "js_whitespace c = ((of_char c :: nat) \<in> {9, 10, 11, 12, 13, 32, 160})"

definition trim :: "string \<Rightarrow> string" where
  "trim s = rev (dropWhile js_whitespace (rev (dropWhile js_whitespace s)))"

text \<open>
  The component state (lines 217-220) and a chat message. A message built without
  \<^verbatim>\<open>sources\<close> has \<open>None\<close> there; one built without \<^verbatim>\<open>isError\<close> has \<open>False\<close>.
\<close>

record 's chat_message =
  role :: string
  msg_content :: js_value
  timestamp :: int
  msg_sources :: "'s list option"
  isError :: bool

record 's chat_state =
  messages :: "'s chat_message list"
  inputText :: string
  loading :: bool
  error :: "string option"

text \<open>
  The body of a successful answer, \<^verbatim>\<open>response.data\<close>, with its properties
  \<^verbatim>\<open>answer\<close> (\<open>Undefined\<close> when the body has none) and \<^verbatim>\<open>sources\<close> (\<open>None\<close>
  when it is missing or falsy). A body that is \<^verbatim>\<open>null\<close> or \<^verbatim>\<open>undefined\<close> is
  \<open>None\<close>; reading \<^verbatim>\<open>response.answer\<close> from it throws a \<^verbatim>\<open>TypeError\<close>, whose
  message the engine chooses (the parameter \<open>type_error\<close>).
\<close>

record 's chat_response =
  answer :: js_value
  sources :: "'s list option"

text \<open>\<^verbatim>\<open>err.message || '...'\<close> on strings.\<close>

definition str_or :: "string \<Rightarrow> string \<Rightarrow> string" where
  "str_or s d = (if s = [] then d else s)"

text \<open>
  A block of statements completes normally or throws, with the state it has reached.
  \<open>try_catch_finally\<close> is the statement \<^verbatim>\<open>try { } catch (err) { } finally { }\<close>: the
  handler takes whatever the \<^verbatim>\<open>try\<close> block throws, the finalizer runs on every path,
  and what leaves the statement is what the handler itself throws.
\<close>

datatype 's completion = Normal "'s chat_state" | Throws exn "'s chat_state"

definition try_catch_finally ::
  "'s completion \<Rightarrow> (exn \<Rightarrow> 's chat_state \<Rightarrow> 's completion) \<Rightarrow> ('s chat_state \<Rightarrow> 's chat_state)
     \<Rightarrow> 's chat_state \<times> exn option" where
  "try_catch_finally tried handler finalizer =
     (case tried of
        Normal st \<Rightarrow> (finalizer st, None)
      | Throws err st \<Rightarrow>
          (case handler err st of
             Normal st' \<Rightarrow> (finalizer st', None)
           | Throws err' st' \<Rightarrow> (finalizer st', Some err')))"

text \<open>
  The three blocks of \<^verbatim>\<open>handleSend\<close> (lines 258-288). \<open>now\<close> is the value of
  \<^verbatim>\<open>new Date()\<close>. No statement of the \<^verbatim>\<open>catch\<close> block throws: what it catches is
  an \<^verbatim>\<open>Error\<close> of \<^verbatim>\<open>sendMessage\<close> or the \<^verbatim>\<open>TypeError\<close> of the \<^verbatim>\<open>try\<close> block.
\<close>

definition try_block ::
  "(string \<Rightarrow> 's chat_response option axios_result) \<Rightarrow> string \<Rightarrow> int \<Rightarrow> string
     \<Rightarrow> 's chat_state \<Rightarrow> 's completion" where
  "try_block post type_error now question st =
     (case sendMessage post question of
        Rejected e \<Rightarrow> Throws e st
      | Resolved None \<Rightarrow> Throws (Exn ''TypeError'' type_error) st
      | Resolved (Some res) \<Rightarrow>
          Normal (st\<lparr>messages := messages st @
                [\<lparr>role = ''assistant'', msg_content = answer res, timestamp = now,
                  msg_sources = Some (case sources res of None \<Rightarrow> [] | Some s \<Rightarrow> s),
                  isError = False\<rparr>]\<rparr>))"

definition catch_block :: "exn \<Rightarrow> int \<Rightarrow> 's chat_state \<Rightarrow> 's completion" where
  "catch_block err now st =
     (let st1 = st\<lparr>error := Some (str_or (exn_message err)
                                   ''Failed to get response. Please try again.'')\<rparr>;
          errorMessage =
            \<lparr>role = ''assistant'',
             msg_content = Str (''Sorry, I encountered an error: '' @
               str_or (exn_message err)
                 ''Failed to get response. Please check your connection and try again.''),
             timestamp = now, msg_sources = None, isError = True\<rparr>
      in Normal (st1\<lparr>messages := messages st1 @ [errorMessage]\<rparr>))"

definition finally_block :: "'s chat_state \<Rightarrow> 's chat_state" where
  "finally_block st = st\<lparr>loading := False\<rparr>"

text \<open>
  The result of one call of the handler: the state afterwards, the questions sent to the
  API, and the exception that left the handler, if any.
\<close>

record 's handler_result =
  final :: "'s chat_state"
  api_calls :: "string list"
  escaped :: "exn option"

text \<open>
  \<^verbatim>\<open>handleSend\<close> (lines 237-289). The handler is a closure of the render that created
  it: the \<^verbatim>\<open>inputText\<close> and \<^verbatim>\<open>loading\<close> it reads are the values of that render
  (\<open>render\<close>, the state as it was then), while its updates go to the state as it is
  when the handler runs (\<open>st\<close>); \<^verbatim>\<open>setMessages\<close> is given a function of the previous
  list, so the messages are appended to the current history. The handler is modelled as
  one uninterrupted run: the wait for the answer is a function call.
\<close>

definition handleSend ::
  "(string \<Rightarrow> 's chat_response option axios_result) \<Rightarrow> string \<Rightarrow> int \<Rightarrow> int
     \<Rightarrow> 's chat_state \<Rightarrow> 's chat_state \<Rightarrow> 's handler_result" where
  "handleSend post type_error now1 now2 render st =
     (let question = trim (inputText render) in
      if question = [] \<or> loading render
      then \<lparr>final = st, api_calls = [], escaped = None\<rparr>
      else
        let st1 = st\<lparr>error := None\<rparr>;
            userMessage = \<lparr>role = ''user'', msg_content = Str question, timestamp = now1,
                           msg_sources = None, isError = False\<rparr>;
            st2 = st1\<lparr>messages := messages st1 @ [userMessage]\<rparr>;
            st3 = st2\<lparr>inputText := []\<rparr>;
            st4 = st3\<lparr>loading := True\<rparr>;
            done = try_catch_finally (try_block post type_error now2 question st4)
                     (\<lambda>err. catch_block err now2) finally_block
        in \<lparr>final = fst done, api_calls = [question], escaped = snd done\<rparr>)"

subsection \<open>The callers of the handler\<close>

text \<open>
  The handler is called from two places.
  \<^item> \<^verbatim>\<open>InputBox\<close> receives \<^verbatim>\<open>value={inputText}\<close>, \<^verbatim>\<open>disabled={loading}\<close>,
    \<^verbatim>\<open>loading={loading}\<close> and \<^verbatim>\<open>onSend={handleSend}\<close> of one render (lines 486-492);
    its key handler and its button call \<^verbatim>\<open>onSend()\<close> when
    \<^verbatim>\<open>!disabled && !loading && value.trim()\<close> (\<^verbatim>\<open>InputBox.jsx\<close>, lines 43 and 51).
  \<^item> An example button exists in a render with \<^verbatim>\<open>messages.length === 0\<close> (line 393);
    its click runs \<^verbatim>\<open>setInputText(text); setTimeout(handleSend, 0)\<close> (lines 411-414),
    so the handler of that render runs once the input holds the example text.
  \<open>invoked site render\<close> says that the place \<open>site\<close> of the render \<open>render\<close> calls
  the handler of that render.
\<close>

datatype call_site = InputBoxSend | ExampleButton

fun invoked :: "call_site \<Rightarrow> 's chat_state \<Rightarrow> bool" where
  "invoked InputBoxSend render =
     (\<not> loading render \<and> \<not> loading render \<and> trim (inputText render) \<noteq> [])"
| "invoked ExampleButton render = (messages render = [])"


definition example_onClick ::
  "string \<Rightarrow> (string \<Rightarrow> 's chat_response option axios_result) \<Rightarrow> string \<Rightarrow> int \<Rightarrow> int
     \<Rightarrow> 's chat_state \<Rightarrow> 's chat_state \<Rightarrow> 's handler_result" where
  "example_onClick text post type_error now1 now2 render st =
     (if invoked ExampleButton render
      then handleSend post type_error now1 now2 render (st\<lparr>inputText := text\<rparr>)
      else \<lparr>final = st, api_calls = [], escaped = None\<rparr>)"


section \<open>The chunker\<close>

text \<open>
  Modelled from the spec: the Chunker of \<^verbatim>\<open>backend/pdf_processor.py\<close>, which is not
  among the source files. The spec, sections 3 and 4.1:
  \<^verbatim>\<open>chunk(text, chunk_size=500, overlap=50)\<close> splits the text on white space into words;
  chunk \<open>i\<close> starts at word offset \<open>i * (chunk_size - overlap)\<close> and spans
  \<open>chunk_size\<close> words (the last may be shorter); only non-empty chunks are produced; a
  source no longer than \<open>chunk_size\<close> yields one chunk; \<open>overlap \<ge> chunk_size\<close> fails
  with \<open>ConfigurationError\<close>. So the chunker stops at the first chunk that reaches the
  end of the words.
\<close>

datatype chunk_error = ConfigurationError

definition is_space :: "char \<Rightarrow> bool" where
  "is_space c = ((of_char c :: nat) \<in> {9, 10, 11, 12, 13, 32})"

fun split_from :: "string \<Rightarrow> string \<Rightarrow> string list" where
  "split_from cur [] = (if cur = [] then [] else [cur])"
| "split_from cur (c # cs) =
     (if is_space c
      then (if cur = [] then split_from [] cs else cur # split_from [] cs)
      else split_from (cur @ [c]) cs)"

definition split_words :: "string \<Rightarrow> string list" where
  "split_words text = split_from [] text"

function chunks_from :: "nat \<Rightarrow> nat \<Rightarrow> 'a list \<Rightarrow> 'a list list" where
  "chunks_from chunk_size overlap ws =
     (if ws = [] \<or> chunk_size \<le> overlap then []
      else if length ws \<le> chunk_size then [ws]
      else take chunk_size ws # chunks_from chunk_size overlap (drop (chunk_size - overlap) ws))"
  by pat_completeness auto
termination
  by (relation "measure (\<lambda>(chunk_size, overlap, ws). length ws)") auto

declare chunks_from.simps [simp del]

definition chunk :: "string \<Rightarrow> nat \<Rightarrow> nat \<Rightarrow> chunk_error + string list list" where
  "chunk text chunk_size overlap =
     (if overlap \<ge> chunk_size then Inl ConfigurationError
      else Inr (chunks_from chunk_size overlap (split_words text)))"

section \<open>The answer generator\<close>

text \<open>
  Modelled from the spec: \<^verbatim>\<open>generate\<close> of \<^verbatim>\<open>backend/main.py\<close>, which is not among
  the source files. The spec, section 4.6, gives the model-call state machine:
  \<open>TRY_PRIMARY\<close> goes to \<open>DONE(primary)\<close> on success and to \<open>TRY_FALLBACK\<close> on
  failure; \<open>TRY_FALLBACK\<close> goes to \<open>DONE(fallback)\<close> on success and to \<open>FAILED\<close>
  on failure, surfaced as \<open>BothModelsUnavailableError\<close>; no retry within one model.
  A provider is a function from the prompt to its completion, \<open>None\<close> when the call
  fails (time-out, rate limit, non-2xx, malformed response). The machine records each
  call it makes.
\<close>

datatype model = Primary | Fallback

datatype generate_error = BothModelsUnavailableError

datatype call_state = TRY_PRIMARY | TRY_FALLBACK | DONE model string | FAILED

record 'c answer_result =
  answer_text :: string
  citations :: "'c list"
  model_used :: model

fun step ::
  "(string \<Rightarrow> string option) \<Rightarrow> (string \<Rightarrow> string option) \<Rightarrow> string
     \<Rightarrow> call_state \<times> model list \<Rightarrow> call_state \<times> model list" where
  "step primary fallback prompt (TRY_PRIMARY, calls) =
     (case primary prompt of
        Some text \<Rightarrow> (DONE Primary text, calls @ [Primary])
      | None \<Rightarrow> (TRY_FALLBACK, calls @ [Primary]))"
| "step primary fallback prompt (TRY_FALLBACK, calls) =
     (case fallback prompt of
        Some text \<Rightarrow> (DONE Fallback text, calls @ [Fallback])
      | None \<Rightarrow> (FAILED, calls @ [Fallback]))"
| "step primary fallback prompt (DONE m text, calls) = (DONE m text, calls)"
| "step primary fallback prompt (FAILED, calls) = (FAILED, calls)"

fun pending :: "call_state \<Rightarrow> nat" where
  "pending TRY_PRIMARY = 2"
| "pending TRY_FALLBACK = 1"
| "pending (DONE m text) = 0"
| "pending FAILED = 0"

function run ::
  "(string \<Rightarrow> string option) \<Rightarrow> (string \<Rightarrow> string option) \<Rightarrow> string
     \<Rightarrow> call_state \<times> model list \<Rightarrow> call_state \<times> model list" where
  "run primary fallback prompt (s, calls) =
     (if pending s = 0 then (s, calls)
      else run primary fallback prompt (step primary fallback prompt (s, calls)))"
  by pat_completeness auto
termination
proof (relation "measure (\<lambda>(primary, fallback, prompt, sc). pending (fst sc))")
  show "wf (measure (\<lambda>(primary, fallback, prompt, sc). pending (fst sc)))"
    by simp
next
  fix primary fallback :: "string \<Rightarrow> string option"
  fix prompt :: string and s :: call_state and calls :: "model list"
  assume "pending s \<noteq> 0"
  then show "((primary, fallback, prompt, step primary fallback prompt (s, calls)),
              (primary, fallback, prompt, (s, calls)))
             \<in> measure (\<lambda>(primary, fallback, prompt, sc). pending (fst sc))"
    by (cases s) (auto split: option.splits)
qed

declare run.simps [simp del]

text \<open>
  \<^verbatim>\<open>generate(question, matches)\<close>: the prompt is built from the question and the
  matches (\<open>build_prompt\<close>, a parameter), the machine runs from \<open>TRY_PRIMARY\<close>, and
  the citations of the result are those of the matches. The second component is the list
  of model calls made.
\<close>

definition generate ::
  "(string \<Rightarrow> 'c list \<Rightarrow> string) \<Rightarrow> (string \<Rightarrow> string option) \<Rightarrow> (string \<Rightarrow> string option)
     \<Rightarrow> string \<Rightarrow> 'c list \<Rightarrow> (generate_error + 'c answer_result) \<times> model list" where
  "generate build_prompt primary fallback question matches =
     (case run primary fallback (build_prompt question matches) (TRY_PRIMARY, []) of
        (DONE m text, calls) \<Rightarrow>
          (Inr \<lparr>answer_text = text, citations = matches, model_used = m\<rparr>, calls)
      | (s, calls) \<Rightarrow> (Inl BothModelsUnavailableError, calls))"

section \<open>Properties of the vector index\<close>

subsection \<open>The order of double precision\<close>



subsection \<open>The scan\<close>



lemma scan_none_clears:
  assumes "\<forall>r \<in> set rows. \<forall>e. embedding r = Some e \<longrightarrow>
             (\<exists>d. dop e q = Inr d \<and> \<not> float8_gt (one_minus d) t)"
  shows "scan dop q t rows = Inr []"
  using assms
proof (induction rows)
  case Nil
  then show ?case by simp
next
  case (Cons r rs)
  then have rest: "scan dop q t rs = Inr []" by simp
  show ?case
  proof (cases "embedding r")
    case None
    with rest show ?thesis by simp
  next
    case (Some e)
    with Cons.prems obtain d where "dop e q = Inr d" "\<not> float8_gt (one_minus d) t" by auto
    with Some rest show ?thesis by simp
  qed
qed

lemma scan_dimension_error:
  assumes "\<forall>e. length e \<noteq> length q \<longrightarrow> (\<exists>err. dop e q = Inl err)"
    and "table_ok tbl" and "length q \<noteq> embedding_dim"
    and "\<exists>r \<in> set tbl. embedding r \<noteq> None"
  shows "\<exists>err. scan dop q t tbl = Inl err"
  using assms(2,4)
proof (induction tbl)
  case Nil
  then show ?case by simp
next
  case (Cons r rs)
  show ?case
  proof (cases "embedding r")
    case None
    with Cons show ?thesis by (auto simp: table_ok_def)
  next
    case (Some e)
    with Cons.prems(1) have "length e = embedding_dim" by (simp add: table_ok_def)
    with assms(1,3) obtain err where "dop e q = Inl err" by metis
    with Some show ?thesis by simp
  qed
qed

subsection \<open>Ordering and limit\<close>



subsection \<open>The exact cosine distance\<close>




lemma inner_product_zeros [simp]: "inner_product (replicate n 0) b = 0"
proof (induction n arbitrary: b)
  case 0
  then show ?case by simp
next
  case (Suc n)
  then show ?case by (cases b) simp_all
qed



subsection \<open>The rows returned\<close>




text \<open>
  C9. An argument of \<^verbatim>\<open>match_documents\<close> that the caller leaves out takes its
  declared default: the search runs with the threshold \<open>0.5\<close> and the count \<open>3\<close>.
  These are the defaults of \<^verbatim>\<open>retrieve\<close>: left without them, it calls its search
  with \<open>0.5\<close> and \<open>3\<close>.
\<close>

theorem match_documents_defaults:
  "match_documents plan dop tbl q None None = match_query plan dop tbl q (Number (1 / 2)) 3
   \<and> match_documents plan dop tbl q None (Some k) = match_query plan dop tbl q (Number (1 / 2)) k
   \<and> match_documents plan dop tbl q (Some t) None = match_query plan dop tbl q t 3
   \<and> retrieve embedder search question None None
       = (case embedder question of
            Inl err \<Rightarrow> Inl err
          | Inr v \<Rightarrow> search v (Number (1 / 2)) 3)"
  by (simp add: match_documents_def retrieve_def split: sum.splits)

text \<open>
  The rows returned when both arguments are left out. Of five rows with the similarities
  \<open>1\<close>, \<open>0\<close>, \<open>1\<close>, \<open>1\<close> and \<open>1\<close>, the second is not above \<open>0.5\<close> and
  three of the others come back.
\<close>

theorem match_documents_defaults_witness:
  "match_documents SeqScan exact_cosine_distance
     [\<lparr>doc_id = 1, content = ''a'', metadata = (None :: string option),
        embedding = Some (1 # 0 # replicate 382 0), created_at = 0\<rparr>,
      \<lparr>doc_id = 2, content = ''b'', metadata = None,
        embedding = Some (0 # 1 # replicate 382 0), created_at = 0\<rparr>,
      \<lparr>doc_id = 3, content = ''c'', metadata = None,
        embedding = Some (1 # 0 # replicate 382 0), created_at = 0\<rparr>,
      \<lparr>doc_id = 4, content = ''d'', metadata = None,
        embedding = Some (1 # 0 # replicate 382 0), created_at = 0\<rparr>,
      \<lparr>doc_id = 5, content = ''e'', metadata = None,
        embedding = Some (1 # 0 # replicate 382 0), created_at = 0\<rparr>]
     (1 # 0 # replicate 382 0) None None
   = Inr [\<lparr>match_id = 1, match_content = ''a'', match_metadata = None,
            similarity = Number 1\<rparr>,
          \<lparr>match_id = 3, match_content = ''c'', match_metadata = None,
            similarity = Number 1\<rparr>,
          \<lparr>match_id = 4, match_content = ''d'', match_metadata = None,
            similarity = Number 1\<rparr>]"
proof -
  note defaults = match_documents_defaults
    [of SeqScan exact_cosine_distance
     "[\<lparr>doc_id = 1, content = ''a'', metadata = (None :: string option),
        embedding = Some (1 # 0 # replicate 382 0), created_at = 0\<rparr>,
      \<lparr>doc_id = 2, content = ''b'', metadata = None,
        embedding = Some (0 # 1 # replicate 382 0), created_at = 0\<rparr>,
      \<lparr>doc_id = 3, content = ''c'', metadata = None,
        embedding = Some (1 # 0 # replicate 382 0), created_at = 0\<rparr>,
      \<lparr>doc_id = 4, content = ''d'', metadata = None,
        embedding = Some (1 # 0 # replicate 382 0), created_at = 0\<rparr>,
      \<lparr>doc_id = 5, content = ''e'', metadata = None,
        embedding = Some (1 # 0 # replicate 382 0), created_at = 0\<rparr>]"
     "1 # 0 # replicate 382 0", THEN conjunct1]
  show ?thesis
    unfolding defaults
    by (simp add: match_query_def order_limit_def select_row_def
          exact_cosine_distance_def float8_gt_def)
qed

text \<open>
  C4, as amended. When the count is not negative, the query vector has the dimension
  384 of the index, and no stored embedding clears the threshold (each one compares with
  the query, to a similarity that is not above the threshold in the order of double
  precision, in which NaN is above every number), \<^verbatim>\<open>match_documents\<close> returns the
  empty sequence and no error, whatever the plan.
\<close>

theorem match_documents_empty:
  assumes "0 \<le> k" and "length q = embedding_dim"
    and "\<forall>r \<in> set tbl. \<forall>e. embedding r = Some e \<longrightarrow>
           (\<exists>d. dop e q = Inr d \<and> \<not> float8_gt (one_minus d) t)"
  shows "match_documents plan dop tbl q (Some t) (Some k) = Inr []"
proof (cases plan)
  case SeqScan
  have "scan dop q t tbl = Inr []"
    using assms(3) by (rule scan_none_clears)
  with SeqScan assms(1) show ?thesis
    by (simp add: match_documents_def match_query_def order_limit_def)
next
  case (IndexScan probed)
  from assms(3) have "\<forall>r \<in> set (filter probed tbl). \<forall>e. embedding r = Some e \<longrightarrow>
           (\<exists>d. dop e q = Inr d \<and> \<not> float8_gt (one_minus d) t)"
    by auto
  then have "scan dop q t (filter probed tbl) = Inr []"
    by (rule scan_none_clears)
  with IndexScan assms(1,2) show ?thesis
    by (simp add: match_documents_def match_query_def order_limit_def)
qed

theorem match_documents_empty_witness:
  "match_documents (IndexScan (\<lambda>r. True)) exact_cosine_distance
     [\<lparr>doc_id = 1, content = ''a'', metadata = (None :: string option),
        embedding = Some (0 # 1 # replicate 382 0), created_at = 0\<rparr>]
     (1 # 0 # replicate 382 0) (Some (Number (1 / 2))) (Some 3) = Inr []"
  using match_documents_empty [of 3 "1 # 0 # replicate 382 0"
     "[\<lparr>doc_id = 1, content = ''a'', metadata = (None :: string option),
        embedding = Some (0 # 1 # replicate 382 0), created_at = 0\<rparr>]"
     exact_cosine_distance "Number (1 / 2)" "IndexScan (\<lambda>r. True)"]
  by (simp add: embedding_dim_def exact_cosine_distance_def float8_gt_def)

text \<open>
  C4 as stated has no condition on the count or on the query. With
  \<^verbatim>\<open>match_count = -1\<close> the one stored embedding does not clear the threshold (the scan
  keeps nothing) and the call fails, as PostgreSQL rejects \<^verbatim>\<open>LIMIT -1\<close>. And on the
  table without rows, where nothing can clear the threshold, the index plan fails for a
  query vector of dimension 2.
\<close>

theorem match_documents_empty_counterexample:
  "scan exact_cosine_distance (1 # 0 # replicate 382 0) (Number (1 / 2))
     [\<lparr>doc_id = 1, content = ''a'', metadata = (None :: string option),
        embedding = Some (0 # 1 # replicate 382 0), created_at = 0\<rparr>] = Inr []
   \<and> match_documents SeqScan exact_cosine_distance
     [\<lparr>doc_id = 1, content = ''a'', metadata = (None :: string option),
        embedding = Some (0 # 1 # replicate 382 0), created_at = 0\<rparr>]
     (1 # 0 # replicate 382 0) (Some (Number (1 / 2))) (Some (- 1)) = Inl NegativeLimit
   \<and> match_documents (IndexScan (\<lambda>r. True)) exact_cosine_distance
     ([] :: string document list) [1, 2] (Some (Number (1 / 2))) (Some 3)
     = Inl (DifferentVectorDimensions 384 2)"
  by (simp add: match_documents_def match_query_def embedding_dim_def
        exact_cosine_distance_def float8_gt_def)

subsection \<open>The dimension of the vectors\<close>

text \<open>Storing keeps every embedding of the table at the dimension of the column.\<close>

lemma insert_document_table_ok:
  "table_ok tbl \<Longrightarrow> insert_document i now c m e tbl = Inr tbl' \<Longrightarrow> table_ok tbl'"
  by (auto simp: insert_document_def store_row_def table_ok_def
        split: option.splits if_splits)

text \<open>
  Under the sequential plan a query of another dimension fails on a table that holds an
  embedding, whenever the operator rejects differing dimensions, as pgvector's does.
\<close>

lemma match_documents_dimension_error:
  assumes "\<forall>e. length e \<noteq> length q \<longrightarrow> (\<exists>err. dop e q = Inl err)"
    and "table_ok tbl" and "length q \<noteq> embedding_dim"
    and "\<exists>r \<in> set tbl. embedding r \<noteq> None" and "0 < k"
  shows "\<exists>err. match_documents SeqScan dop tbl q (Some t) (Some k) = Inl err"
proof -
  from assms(1-4) obtain err where "scan dop q t tbl = Inl err"
    using scan_dimension_error by blast
  with assms(5) show ?thesis
    by (simp add: match_documents_def match_query_def order_limit_def)
qed

text \<open>
  C5 at its failing input. On the table without rows, a call with a query vector of
  dimension 2 and the count 1000, which PostgreSQL answers by the sequential plan, is
  accepted and returns the empty sequence: the \<^verbatim>\<open>(384)\<close> of the parameter does not
  reject the vector, and no stored embedding is there for the operator to compare it
  with. The same vector is rejected where the index plan is taken, as it is with the
  default count.
\<close>

theorem match_documents_any_dimension:
  "table_ok ([] :: 'm document list)
   \<and> length [1, 2 :: real] \<noteq> embedding_dim
   \<and> match_documents SeqScan dop ([] :: 'm document list) [1, 2]
        (Some (Number (1 / 2))) (Some 1000) = Inr []
   \<and> match_documents (IndexScan probed) dop ([] :: 'm document list) [1, 2] None None
        = Inl (DifferentVectorDimensions 384 2)"
  by (simp add: match_documents_def match_query_def order_limit_def table_ok_def
        embedding_dim_def)

subsection \<open>The range of the similarity\<close>




section \<open>Properties of the API helper and the chat interface\<close>

lemma truthy_js_or: "truthy b \<Longrightarrow> truthy (js_or a b)"
  by (simp add: js_or_def)

lemma truthy_error_text: "truthy (error_text e)"
  unfolding error_text_def by (rule truthy_js_or) simp

lemma new_Error_truthy: "truthy m \<Longrightarrow> new_Error m = Exn ''Error'' (to_string m)"
  by (cases m) (simp_all add: new_Error_def)

text \<open>
  C8, as amended. When the request fails, the caller of \<^verbatim>\<open>sendMessage\<close> receives a
  plain \<^verbatim>\<open>Error\<close> that carries a message text and nothing else: the \<^verbatim>\<open>detail\<close> of
  the server's answer if it is truthy, else its \<^verbatim>\<open>message\<close>, else the message of the
  transport error, else \<^verbatim>\<open>Failed to get response from server\<close>.
\<close>

theorem sendMessage_rejects_with_message:
  assumes "post question = Failed e"
  shows "sendMessage post question = Rejected (Exn ''Error'' (to_string (error_text e)))
       \<and> error_text e =
           (if truthy (data_field detail e) then data_field detail e
            else if truthy (data_field message e) then data_field message e
            else if truthy (err_message e) then err_message e
            else Str ''Failed to get response from server'')"
proof -
  have t: "truthy (error_text e)" by (rule truthy_error_text)
  have "sendMessage post question = Rejected (Exn ''Error'' (to_string (error_text e)))"
    using assms new_Error_truthy [OF t] by (simp add: sendMessage_def)
  moreover have "error_text e =
           (if truthy (data_field detail e) then data_field detail e
            else if truthy (data_field message e) then data_field message e
            else if truthy (err_message e) then err_message e
            else Str ''Failed to get response from server'')"
    by (simp add: error_text_def js_or_def)
  ultimately show ?thesis by simp
qed

theorem sendMessage_rejects_with_message_witness:
  "sendMessage
     (\<lambda>q. Failed \<lparr>response = None, err_message = Str ''Network Error''\<rparr>) ''What is a society?''
   = (Rejected (Exn ''Error'' ''Network Error'') :: unit promise)"
  using sendMessage_rejects_with_message
    [of "\<lambda>q. Failed \<lparr>response = None, err_message = Str ''Network Error''\<rparr>"
        "''What is a society?''" "\<lparr>response = None, err_message = Str ''Network Error''\<rparr>"]
  by (simp add: error_text_def js_or_def data_field_def)

text \<open>
  C8 as stated promises a distinguishable error kind. A 404 and a 503 whose bodies carry
  the same \<^verbatim>\<open>detail\<close>, and a transport failure with that text as its message, all
  reach the caller as the same value: the status and the kind of failure are dropped.
\<close>

theorem sendMessage_kind_counterexample:
  "(sendMessage
     (\<lambda>q. Failed \<lparr>response = Some \<lparr>status = 404,
              data = Some \<lparr>detail = Str ''Request failed'', message = Undefined\<rparr>\<rparr>,
            err_message = Str ''Request failed with status code 404''\<rparr>) ''q'' :: unit promise)
   = sendMessage
     (\<lambda>q. Failed \<lparr>response = Some \<lparr>status = 503,
              data = Some \<lparr>detail = Str ''Request failed'', message = Undefined\<rparr>\<rparr>,
            err_message = Str ''Request failed with status code 503''\<rparr>) ''q''
   \<and> (sendMessage
     (\<lambda>q. Failed \<lparr>response = Some \<lparr>status = 404,
              data = Some \<lparr>detail = Str ''Request failed'', message = Undefined\<rparr>\<rparr>,
            err_message = Str ''Request failed with status code 404''\<rparr>) ''q'' :: unit promise)
   = sendMessage
     (\<lambda>q. Failed \<lparr>response = None, err_message = Str ''Request failed''\<rparr>) ''q''"
  by (simp add: sendMessage_def error_text_def js_or_def data_field_def new_Error_def)

text \<open>
  C7, as amended. For every question that is empty or white space only after trimming,
  \<^verbatim>\<open>handleSend\<close> makes no call to the API, so that no embedding, search or model call
  follows, and leaves the chat state as it was; it returns normally and raises no error.
\<close>

theorem blank_question_no_call:
  assumes "trim (inputText render) = []"
  shows "handleSend post type_error now1 now2 render st
         = \<lparr>final = st, api_calls = [], escaped = None\<rparr>"
  using assms by (simp add: handleSend_def)

theorem blank_question_no_call_witness:
  "handleSend (\<lambda>q. Failed \<lparr>response = None, err_message = Str ''Network Error''\<rparr>)
      ''x'' 1 2
      \<lparr>messages = ([] :: unit chat_message list), inputText = ''   '', loading = False,
        error = None\<rparr>
      \<lparr>messages = ([] :: unit chat_message list), inputText = ''   '', loading = False,
        error = None\<rparr>
   = \<lparr>final = \<lparr>messages = [], inputText = ''   '', loading = False, error = None\<rparr>,
      api_calls = [], escaped = None\<rparr>"
  using blank_question_no_call
    [of "\<lparr>messages = ([] :: unit chat_message list), inputText = ''   '', loading = False,
          error = None\<rparr>"
        "\<lambda>q. Failed \<lparr>response = None, err_message = Str ''Network Error''\<rparr>" "''x''" 1 2
        "\<lparr>messages = ([] :: unit chat_message list), inputText = ''   '', loading = False,
          error = None\<rparr>"]
  by (simp add: trim_def js_whitespace_def)

text \<open>
  C7 as stated has the empty question fail with \<open>InvalidInputError\<close>. For the empty
  input the handler returns normally: no exception leaves it.
\<close>

theorem blank_question_no_call_counterexample:
  "trim [] = []
   \<and> escaped (handleSend
        (\<lambda>q. Failed \<lparr>response = None, err_message = Str ''Network Error''\<rparr>) ''x'' 1 2
        \<lparr>messages = ([] :: unit chat_message list), inputText = [], loading = False,
          error = None\<rparr>
        \<lparr>messages = ([] :: unit chat_message list), inputText = [], loading = False,
          error = None\<rparr>) = None"
  by (simp add: handleSend_def trim_def)






text \<open>
  The handler that an example button schedules is the one of the render that showed the
  button, and reads the input of that render. On the fresh page, where that input is
  empty, the click leaves the example text in the box and sends nothing; that call has a
  blank input and is not among those of C10.
\<close>

lemma example_onClick_fresh:
  "example_onClick text post type_error now1 now2
     \<lparr>messages = [], inputText = [], loading = False, error = None\<rparr>
     \<lparr>messages = [], inputText = [], loading = False, error = None\<rparr>
   = \<lparr>final = \<lparr>messages = [], inputText = text, loading = False, error = None\<rparr>,
      api_calls = [], escaped = None\<rparr>"
  by (simp add: example_onClick_def handleSend_def trim_def)

section \<open>Properties of the chunker\<close>

lemma chunks_from_nth:
  "i < length (chunks_from chunk_size overlap ws)
   \<Longrightarrow> chunks_from chunk_size overlap ws ! i
       = take chunk_size (drop (i * (chunk_size - overlap)) ws)"
proof (induction chunk_size overlap ws arbitrary: i rule: chunks_from.induct)
  case (1 chunk_size overlap ws)
  show ?case
  proof (cases "ws = [] \<or> chunk_size \<le> overlap")
    case True
    with "1.prems" show ?thesis by (simp add: chunks_from.simps [of chunk_size overlap ws])
  next
    case False
    show ?thesis
    proof (cases "length ws \<le> chunk_size")
      case True
      with False "1.prems" show ?thesis
        by (simp add: chunks_from.simps [of chunk_size overlap ws])
    next
      case long: False
      show ?thesis
      proof (cases i)
        case 0
        with False long show ?thesis
          by (simp add: chunks_from.simps [of chunk_size overlap ws])
      next
        case (Suc j)
        with False long "1.prems"
        have "j < length (chunks_from chunk_size overlap (drop (chunk_size - overlap) ws))"
          by (simp add: chunks_from.simps [of chunk_size overlap ws])
        with False long have
          "chunks_from chunk_size overlap (drop (chunk_size - overlap) ws) ! j
           = take chunk_size (drop (j * (chunk_size - overlap)) (drop (chunk_size - overlap) ws))"
          by (intro "1.IH") auto
        with False long Suc show ?thesis
          by (simp add: chunks_from.simps [of chunk_size overlap ws] add.commute)
      qed
    qed
  qed
qed

lemma chunks_from_nonempty:
  "c \<in> set (chunks_from chunk_size overlap ws) \<Longrightarrow> c \<noteq> []"
proof (induction chunk_size overlap ws rule: chunks_from.induct)
  case (1 chunk_size overlap ws)
  show ?case
  proof (cases "ws = [] \<or> chunk_size \<le> overlap")
    case True
    with "1.prems" show ?thesis by (simp add: chunks_from.simps [of chunk_size overlap ws])
  next
    case False
    show ?thesis
    proof (cases "length ws \<le> chunk_size")
      case True
      with False "1.prems" show ?thesis
        by (simp add: chunks_from.simps [of chunk_size overlap ws])
    next
      case long: False
      with False "1.prems" have
        "c = take chunk_size ws
         \<or> c \<in> set (chunks_from chunk_size overlap (drop (chunk_size - overlap) ws))"
        by (simp add: chunks_from.simps [of chunk_size overlap ws])
      then show ?thesis
      proof
        assume "c = take chunk_size ws"
        with False show ?thesis by auto
      next
        assume "c \<in> set (chunks_from chunk_size overlap (drop (chunk_size - overlap) ws))"
        with False long show ?thesis by (intro "1.IH") auto
      qed
    qed
  qed
qed

lemma chunks_from_offset:
  "Suc i < length (chunks_from chunk_size overlap ws)
   \<Longrightarrow> Suc i * (chunk_size - overlap) + overlap < length ws"
proof (induction chunk_size overlap ws arbitrary: i rule: chunks_from.induct)
  case (1 chunk_size overlap ws)
  show ?case
  proof (cases "ws = [] \<or> chunk_size \<le> overlap")
    case True
    with "1.prems" show ?thesis by (simp add: chunks_from.simps [of chunk_size overlap ws])
  next
    case False
    show ?thesis
    proof (cases "length ws \<le> chunk_size")
      case True
      with False "1.prems" show ?thesis
        by (simp add: chunks_from.simps [of chunk_size overlap ws])
    next
      case long: False
      with False "1.prems"
      have rest: "i < length (chunks_from chunk_size overlap (drop (chunk_size - overlap) ws))"
        by (simp add: chunks_from.simps [of chunk_size overlap ws])
      show ?thesis
      proof (cases i)
        case 0
        with False long show ?thesis by simp
      next
        case (Suc j)
        with rest False long have
          "Suc j * (chunk_size - overlap) + overlap < length (drop (chunk_size - overlap) ws)"
          by (intro "1.IH") auto
        with Suc show ?thesis by simp
      qed
    qed
  qed
qed

lemma chunks_from_count:
  "overlap < chunk_size \<Longrightarrow> overlap < length ws
   \<Longrightarrow> length (chunks_from chunk_size overlap ws)
       = (length ws - overlap + (chunk_size - overlap) - 1) div (chunk_size - overlap)"
proof (induction chunk_size overlap ws rule: chunks_from.induct)
  case (1 chunk_size overlap ws)
  let ?step = "chunk_size - overlap"
  from "1.prems" have ne: "ws \<noteq> []" and step: "0 < ?step" by auto
  show ?case
  proof (cases "length ws \<le> chunk_size")
    case True
    with "1.prems" have "?step * 1 \<le> length ws - overlap + ?step - 1"
      and "length ws - overlap + ?step - 1 < ?step * Suc 1"
      by auto
    then have "(length ws - overlap + ?step - 1) div ?step = 1"
      by (rule div_nat_eqI)
    with True ne "1.prems" show ?thesis
      by (simp add: chunks_from.simps [of chunk_size overlap ws])
  next
    case long: False
    with "1.prems" have more: "overlap < length (drop ?step ws)" by simp
    from ne long "1.prems" have
      "length (chunks_from chunk_size overlap (drop ?step ws))
       = (length (drop ?step ws) - overlap + ?step - 1) div ?step"
      using more by (intro "1.IH") auto
    moreover have "length (drop ?step ws) - overlap + ?step - 1 + ?step
                   = length ws - overlap + ?step - 1"
      using long "1.prems" by simp
    then have "(length ws - overlap + ?step - 1) div ?step
               = (length (drop ?step ws) - overlap + ?step - 1) div ?step + 1"
      using step by (metis div_add_self2 less_numeral_extra(3))
    ultimately show ?thesis
      using ne long "1.prems" by (simp add: chunks_from.simps [of chunk_size overlap ws])
  qed
qed

lemma chunks_from_short:
  "overlap < chunk_size \<Longrightarrow> ws \<noteq> [] \<Longrightarrow> length ws \<le> chunk_size
   \<Longrightarrow> chunks_from chunk_size overlap ws = [ws]"
  by (simp add: chunks_from.simps [of chunk_size overlap ws])

lemma ceiling_as_div:
  fixes n :: nat
  assumes "50 < n"
  shows "nat \<lceil>(real n - 50) / 450\<rceil> = (n - 50 + 450 - 1) div 450"
proof -
  have "(real n - 50) / 450 = real_of_int (int n - 50) / real_of_int 450"
    by simp
  then have "\<lceil>(real n - 50) / 450\<rceil> = - (- (int n - 50) div 450)"
    by (simp only: ceiling_divide_eq_div)
  also have "\<dots> = int ((n - 50 + 450 - 1) div 450)"
    using assms by (simp add: zdiv_int)
  finally show ?thesis by simp
qed

text \<open>The scenario of the spec: a document of 1200 words gives three chunks.\<close>

lemma chunks_from_1200: "length ws = 1200 \<Longrightarrow> length (chunks_from 500 50 ws) = 3"
  by (simp add: chunks_from_count)

text \<open>
  C2, as amended. For any text of \<open>N \<ge> 1\<close> words chunked with \<open>chunk_size = 500\<close>
  and \<open>overlap = 50\<close>: the chunker produces \<open>ceil((N - 50) / (500 - 50))\<close> chunks
  when \<open>N > 500\<close> and one chunk otherwise; chunk \<open>i\<close> starts at word offset
  \<open>i * (500 - 50)\<close> and spans 500 words or what is left; every chunk is non-empty; and
  the last 50 words of a chunk are the first 50 words of the next one.
\<close>

theorem chunk_default_layout:
  assumes "split_words text \<noteq> []"
  shows "\<exists>cs. chunk text 500 50 = Inr cs
           \<and> length cs = (if length (split_words text) > 500
                          then nat \<lceil>(real (length (split_words text)) - 50) / (500 - 50)\<rceil>
                          else 1)
           \<and> (\<forall>i < length cs. cs ! i = take 500 (drop (i * (500 - 50)) (split_words text)))
           \<and> (\<forall>c \<in> set cs. c \<noteq> [])
           \<and> (\<forall>i. i + 1 < length cs \<longrightarrow>
                  drop (500 - 50) (cs ! i) = take 50 (cs ! (i + 1))
                  \<and> length (take 50 (cs ! (i + 1))) = 50)"
proof -
  let ?ws = "split_words text"
  let ?cs = "chunks_from 500 50 ?ws"
  have eq: "chunk text 500 50 = Inr ?cs"
    by (simp add: chunk_def)
  have count: "length ?cs = (if length ?ws > 500
                             then nat \<lceil>(real (length ?ws) - 50) / (500 - 50)\<rceil> else 1)"
  proof (cases "length ?ws > 500")
    case True
    then have "length ?cs = (length ?ws - 50 + (500 - 50) - 1) div (500 - 50)"
      by (intro chunks_from_count) auto
    also have "\<dots> = nat \<lceil>(real (length ?ws) - 50) / 450\<rceil>"
      using True by (simp add: ceiling_as_div)
    finally show ?thesis using True by simp
  next
    case False
    with assms have "?cs = [?ws]"
      by (intro chunks_from_short) auto
    with False show ?thesis by simp
  qed
  have offsets: "\<forall>i < length ?cs. ?cs ! i = take 500 (drop (i * (500 - 50)) ?ws)"
    using chunks_from_nth [of _ 500 50 ?ws] by blast
  have nonempty: "\<forall>c \<in> set ?cs. c \<noteq> []"
    using chunks_from_nonempty [of _ 500 50 ?ws] by blast
  have shared: "\<forall>i. i + 1 < length ?cs \<longrightarrow>
                  drop (500 - 50) (?cs ! i) = take 50 (?cs ! (i + 1))
                  \<and> length (take 50 (?cs ! (i + 1))) = 50"
  proof (intro allI impI)
    fix i
    assume i: "i + 1 < length ?cs"
    then have a: "?cs ! i = take 500 (drop (i * 450) ?ws)"
      and b: "?cs ! (i + 1) = take 500 (drop ((i + 1) * 450) ?ws)"
      using offsets by auto
    from i have "Suc i * (500 - 50) + 50 < length ?ws"
      by (intro chunks_from_offset) simp
    then have len: "(i + 1) * 450 + 50 < length ?ws" by simp
    have "drop 450 (?cs ! i) = take 50 (drop ((i + 1) * 450) ?ws)"
      unfolding a by (simp add: drop_take add.commute)
    moreover have "take 50 (?cs ! (i + 1)) = take 50 (drop ((i + 1) * 450) ?ws)"
      unfolding b by simp
    moreover have "length (take 50 (drop ((i + 1) * 450) ?ws)) = 50"
      using len by simp
    ultimately show "drop (500 - 50) (?cs ! i) = take 50 (?cs ! (i + 1))
                     \<and> length (take 50 (?cs ! (i + 1))) = 50"
      by simp
  qed
  from eq count offsets nonempty shared show ?thesis by blast
qed

lemma split_words_two: "split_words ''act rules'' = [''act'', ''rules'']"
  by (simp add: split_words_def is_space_def)

theorem chunk_default_layout_witness:
  "chunk ''act rules'' 500 50 = Inr [[''act'', ''rules'']]"
proof -
  have "split_words ''act rules'' \<noteq> []"
    by (simp add: split_words_two)
  from chunk_default_layout [OF this] show ?thesis
    by (simp add: chunk_def split_words_two chunks_from.simps)
qed

text \<open>
  C2 as stated includes the text without words, for which it asks for exactly one chunk
  and for non-empty chunks at once. The chunker produces no chunk there; a chunker that
  produced one would produce an empty one.
\<close>

theorem chunk_default_layout_counterexample:
  "length (split_words []) = 0 \<and> chunk [] 500 50 = Inr []"
  by (simp add: chunk_def split_words_def chunks_from.simps)

section \<open>Properties of the answer generator\<close>

lemma run_primary_fails:
  assumes "primary prompt = None"
  shows "run primary fallback prompt (TRY_PRIMARY, [])
         = (case fallback prompt of
              Some text \<Rightarrow> (DONE Fallback text, [Primary, Fallback])
            | None \<Rightarrow> (FAILED, [Primary, Fallback]))"
  using assms by (simp add: run.simps split: option.splits)

text \<open>
  C3. When the primary completion call fails, \<^verbatim>\<open>generate\<close> calls the fallback exactly
  once, after the primary; when the fallback succeeds the result carries its text with
  \<open>model_used = Fallback\<close>; when it fails too the call fails with
  \<open>BothModelsUnavailableError\<close>, which carries no answer.
\<close>

theorem generate_failover:
  assumes "primary (build_prompt question matches) = None"
  shows "snd (generate build_prompt primary fallback question matches) = [Primary, Fallback]
       \<and> count_list (snd (generate build_prompt primary fallback question matches)) Fallback = 1
       \<and> (\<forall>text. fallback (build_prompt question matches) = Some text \<longrightarrow>
            fst (generate build_prompt primary fallback question matches)
              = Inr \<lparr>answer_text = text, citations = matches, model_used = Fallback\<rparr>)
       \<and> (fallback (build_prompt question matches) = None \<longrightarrow>
            fst (generate build_prompt primary fallback question matches)
              = Inl BothModelsUnavailableError)"
  using assms run_primary_fails [of primary "build_prompt question matches" fallback]
  by (auto simp: generate_def split: option.splits)

theorem generate_failover_witness:
  "generate (\<lambda>q ms. q) (\<lambda>p. None) (\<lambda>p. Some ''from the fallback'') ''What is a society?''
     [1 :: nat, 2]
   = (Inr \<lparr>answer_text = ''from the fallback'', citations = [1, 2], model_used = Fallback\<rparr>,
      [Primary, Fallback])"
  using generate_failover [of "\<lambda>p. None" "\<lambda>q ms. q" "''What is a society?''" "[1 :: nat, 2]"
      "\<lambda>p. Some ''from the fallback''"]
  by (simp add: prod_eq_iff)

end
